theory Spec2Isabelle
  imports Main
begin

section \<open>The flavor interface\<close>

text \<open>
  The source file \<^verbatim>\<open>go/vt/mysqlctl/mysql_flavor.go\<close> declares the interface
  \<^verbatim>\<open>MysqlFlavor\<close>, the package variable \<^verbatim>\<open>mysqlFlavors\<close> and the function
  \<^verbatim>\<open>mysqlFlavor\<close>.

  A Go interface is a table of methods. It becomes a record with one field for each
  method, each field typed after the method's signature: a result \<^verbatim>\<open>(T, error)\<close> is the
  sum \<open>'e + T\<close> (\<open>Inl\<close> the error), a result \<^verbatim>\<open>error\<close> alone is \<open>'e option\<close>
  (\<open>None\<close> for Go's nil error), and a result \<^verbatim>\<open>T\<close> alone is \<open>T\<close>. The types the
  interface mentions and the file does not declare (\<^verbatim>\<open>Mysqld\<close>, \<^verbatim>\<open>SlaveConnection\<close>,
  \<^verbatim>\<open>proto.ReplicationPosition\<close>, \<^verbatim>\<open>proto.ReplicationStatus\<close>, \<^verbatim>\<open>proto.GTID\<close>,
  \<^verbatim>\<open>mysql.ConnectionParams\<close>, \<^verbatim>\<open>blproto.BinlogEvent\<close> and Go's \<^verbatim>\<open>error\<close>) are type
  parameters. A \<^verbatim>\<open>[]byte\<close> is a list of 8-bit naturals, a \<^verbatim>\<open>time.Duration\<close> an integer.
\<close>

type_synonym byte = nat

record ('mysqld, 'conn, 'pos, 'status, 'gtid, 'params, 'event, 'e) MysqlFlavor =
  MasterPosition :: "'mysqld \<Rightarrow> 'e + 'pos"
  SlaveStatus :: "'mysqld \<Rightarrow> 'e + 'status"
  PromoteSlaveCommands :: "string list"
  StartReplicationCommands :: "'params \<Rightarrow> 'status \<Rightarrow> 'e + string list"
  ParseGTID :: "string \<Rightarrow> 'e + 'gtid"
  ParseReplicationPosition :: "string \<Rightarrow> 'e + 'pos"
  SendBinlogDumpCommand :: "'mysqld \<Rightarrow> 'conn \<Rightarrow> 'pos \<Rightarrow> 'e option"
  MakeBinlogEvent :: "byte list \<Rightarrow> 'event"
  WaitMasterPos :: "'mysqld \<Rightarrow> 'pos \<Rightarrow> int \<Rightarrow> 'e option"

text \<open>
  \<^verbatim>\<open>MakeBinlogEvent\<close> is declared with one result, \<^verbatim>\<open>blproto.BinlogEvent\<close>, and no
  \<^verbatim>\<open>error\<close>, unlike \<^verbatim>\<open>ParseGTID\<close> and \<^verbatim>\<open>ParseReplicationPosition\<close>; its field has the
  type of the event alone. The implementations of the interface are in other files.

  A value of interface type is either Go's nil or holds an implementation.
\<close>

datatype 'a iface = NilFlavor | Flavor 'a

section \<open>The state of the process\<close>

text \<open>
  \<^verbatim>\<open>mysqlFlavor\<close> reads the process environment and the package variable
  \<^verbatim>\<open>mysqlFlavors\<close>, and writes to the log. The state holds the three.

  \<^verbatim>\<open>mysqlFlavors\<close> is a \<^verbatim>\<open>map[string]MysqlFlavor\<close>. It is an association list: the
  entries of the map, in the order in which a \<^verbatim>\<open>range\<close> over it visits them (Go leaves
  that order open, so does the model: it is whatever order the list has). A key occurs
  once in a Go map, which is \<open>go_map\<close>; then \<^verbatim>\<open>len\<close> is the length of the list.
\<close>

datatype log_entry = INFO string | FATAL string

record 'a process =
  environ :: "string \<rightharpoonup> string"
  mysqlFlavors :: "(string \<times> 'a iface) list"
  glog :: "log_entry list"

definition go_map :: "('k \<times> 'v) list \<Rightarrow> bool" where
  "go_map m = distinct (map fst m)"

definition len_map :: "('k \<times> 'v) list \<Rightarrow> nat" where
  "len_map m = length m"

text \<open>
  The index expression \<^verbatim>\<open>v, ok := m[k]\<close>: the value and \<^verbatim>\<open>true\<close> when the key is
  present, the zero value of the value type (nil, for an interface) and \<^verbatim>\<open>false\<close>
  when it is not.
\<close>

definition map_index :: "(string \<times> 'a iface) list \<Rightarrow> string \<Rightarrow> 'a iface \<times> bool" where
  "map_index m k = (case map_of m k of None \<Rightarrow> (NilFlavor, False) | Some v \<Rightarrow> (v, True))"

text \<open>
  \<^verbatim>\<open>os.Getenv\<close> returns the value of the variable, and the empty string when the
  variable is not set.
\<close>

definition Getenv :: "'a process \<Rightarrow> string \<Rightarrow> string" where
  "Getenv s key = (case environ s key of None \<Rightarrow> '''' | Some v \<Rightarrow> v)"

section \<open>Statements\<close>

text \<open>
  A call of \<^verbatim>\<open>mysqlFlavor\<close> ends in one of three ways: a \<^verbatim>\<open>return\<close> with a value,
  the end of the process in \<^verbatim>\<open>log.Fatal\<close>, or a \<^verbatim>\<open>panic\<close>.

  A statement runs on the state and either completes (\<open>None\<close>: control goes to the
  next statement) or leaves the function in one of the three ways. A block is a
  statement list that cannot complete: Go demands that the body of a function with a
  result ends in a terminating statement, which is why the source ends in
  \<^verbatim>\<open>panic("")\<close>.
\<close>

datatype 'r exit = Return 'r | Fatal string | Panic string

type_synonym ('s, 'r) stmt = "'s \<Rightarrow> 'r exit option \<times> 's"
type_synonym ('s, 'r) block = "'s \<Rightarrow> 'r exit \<times> 's"

definition then_stmt :: "('s, 'r) stmt \<Rightarrow> ('s, 'r) stmt \<Rightarrow> ('s, 'r) stmt" where
  "then_stmt a b s = (case a s of (None, s') \<Rightarrow> b s' | (Some e, s') \<Rightarrow> (Some e, s'))"

definition then_block :: "('s, 'r) stmt \<Rightarrow> ('s, 'r) block \<Rightarrow> ('s, 'r) block" where
  "then_block a b s = (case a s of (None, s') \<Rightarrow> b s' | (Some e, s') \<Rightarrow> (e, s'))"

definition if_stmt :: "bool \<Rightarrow> ('s, 'r) stmt \<Rightarrow> ('s, 'r) stmt" where
  "if_stmt c a s = (if c then a s else (None, s))"

definition return_stmt :: "'r \<Rightarrow> ('s, 'r) stmt" where
  "return_stmt v s = (Some (Return v), s)"

definition panic :: "string \<Rightarrow> ('s, 'r) block" where
  "panic msg s = (Panic msg, s)"

text \<open>A statement that reads the state it runs on.\<close>

definition reading :: "('s \<Rightarrow> ('s, 'r) stmt) \<Rightarrow> ('s, 'r) stmt" where
  "reading a s = a s s"

text \<open>
  \<^verbatim>\<open>for k, v := range m { body }\<close>: the body runs on each entry in turn, until it
  leaves the function.
\<close>

fun range_stmt :: "('k \<times> 'v) list \<Rightarrow> ('k \<Rightarrow> 'v \<Rightarrow> ('s, 'r) stmt) \<Rightarrow> ('s, 'r) stmt" where
  "range_stmt [] body = (\<lambda>s. (None, s))"
| "range_stmt ((k, v) # kvs) body = then_stmt (body k v) (range_stmt kvs body)"

text \<open>
  \<^verbatim>\<open>log.Info\<close> and \<^verbatim>\<open>log.Infof\<close> append a line to the log. The verb \<^verbatim>\<open>%v\<close> of a
  string is the string, so the formatted line is the text followed by the name.
\<close>

definition log_Info :: "string \<Rightarrow> ('a process, 'r) stmt" where
  "log_Info msg s = (None, s\<lparr>glog := glog s @ [INFO msg]\<rparr>)"

text \<open>
  Modelled from the spec: \<^verbatim>\<open>log.Fatal\<close> and \<^verbatim>\<open>log.Fatalf\<close> belong to the logging
  package \<^verbatim>\<open>github.com/golang/glog\<close>, which is not part of the source file. The
  specification calls the two failures of the resolution fatal to the whole process
  ("the process should terminate with a clear diagnostic"), as the package documents
  them: the message is logged and the process exits. So the statement never completes,
  and the statements after it do not run.
\<close>

definition log_Fatal :: "string \<Rightarrow> ('a process, 'r) stmt" where
  "log_Fatal msg s = (Some (Fatal msg), s\<lparr>glog := glog s @ [FATAL msg]\<rparr>)"

section \<open>The resolution\<close>

text \<open>
  \<^verbatim>\<open>
  func mysqlFlavor() MysqlFlavor {
      f := os.Getenv("MYSQL_FLAVOR")
      if f == "" {
          if len(mysqlFlavors) == 1 {
              for k, v := range mysqlFlavors {
                  log.Infof("Only one MySQL flavor declared, using %v", k)
                  return v
              }
          }
          if v, ok := mysqlFlavors["GoogleMysql"]; ok {
              log.Info("MYSQL_FLAVOR is not set, using GoogleMysql flavor by default")
              return v
          }
          log.Fatal("MYSQL_FLAVOR is not set, and no GoogleMysql flavor registered")
      }
      if v, ok := mysqlFlavors[f]; ok {
          log.Infof("Using MySQL flavor %v", f)
          return v
      }
      log.Fatalf("MYSQL_FLAVOR is set to unknown value %v", f)
      panic("")
  }
  \<close>
\<close>

definition mysqlFlavor :: "'a process \<Rightarrow> 'a iface exit \<times> 'a process" where
  "mysqlFlavor s0 =
     (let f = Getenv s0 ''MYSQL_FLAVOR'' in
      then_block
        (if_stmt (f = '''')
          (then_stmt
            (reading (\<lambda>s. if_stmt (len_map (mysqlFlavors s) = 1)
              (range_stmt (mysqlFlavors s) (\<lambda>k v.
                then_stmt
                  (log_Info (''Only one MySQL flavor declared, using '' @ k))
                  (return_stmt v)))))
          (then_stmt
            (reading (\<lambda>s. case map_index (mysqlFlavors s) ''GoogleMysql'' of (v, ok) \<Rightarrow>
              if_stmt ok
                (then_stmt
                  (log_Info ''MYSQL_FLAVOR is not set, using GoogleMysql flavor by default'')
                  (return_stmt v))))
            (log_Fatal ''MYSQL_FLAVOR is not set, and no GoogleMysql flavor registered''))))
      (then_block
        (reading (\<lambda>s. case map_index (mysqlFlavors s) f of (v, ok) \<Rightarrow>
          if_stmt ok
            (then_stmt
              (log_Info (''Using MySQL flavor '' @ f))
              (return_stmt v))))
      (then_block
        (log_Fatal (''MYSQL_FLAVOR is set to unknown value '' @ f))
        (panic ''''))) s0)"

text \<open>
  Two calls, one after the other. The second runs on the state the first left, after
  whatever the program did to it in between.
\<close>

definition mysqlFlavor_twice ::
  "('a process \<Rightarrow> 'a process) \<Rightarrow> 'a process
     \<Rightarrow> 'a iface exit \<times> 'a iface exit \<times> 'a process \<times> 'a process" where
  "mysqlFlavor_twice between s =
     (case mysqlFlavor s of (r1, s1) \<Rightarrow>
        (case mysqlFlavor (between s1) of (r2, s2) \<Rightarrow> (r1, r2, s1, s2)))"

text \<open>The state with one more line in the log.\<close>

definition logged :: "log_entry \<Rightarrow> 'a process \<Rightarrow> 'a process" where
  "logged e s = s\<lparr>glog := glog s @ [e]\<rparr>"

section \<open>Example states\<close>

text \<open>
  Two implementations and the registries of the scenarios: \<^verbatim>\<open>MYSQL_FLAVOR\<close> is not
  set and the log is empty.
\<close>

datatype impl = implA | implB

definition only_GoogleMysql :: "impl process" where
  "only_GoogleMysql =
     \<lparr>environ = Map.empty, mysqlFlavors = [(''GoogleMysql'', Flavor implA)], glog = []\<rparr>"

definition only_MariaDB :: "impl process" where
  "only_MariaDB =
     \<lparr>environ = Map.empty, mysqlFlavors = [(''MariaDB'', Flavor implB)], glog = []\<rparr>"

definition both_flavors :: "impl process" where
  "both_flavors =
     \<lparr>environ = Map.empty,
      mysqlFlavors = [(''GoogleMysql'', Flavor implA), (''MariaDB'', Flavor implB)],
      glog = []\<rparr>"

definition no_default :: "impl process" where
  "no_default =
     \<lparr>environ = Map.empty,
      mysqlFlavors = [(''MariaDB'', Flavor implB), (''MySQL56'', Flavor implA)],
      glog = []\<rparr>"

text \<open>\<^verbatim>\<open>os.Setenv(key, value)\<close>, for the states in which the variable is set.\<close>

definition Setenv :: "string \<Rightarrow> string \<Rightarrow> 'a process \<Rightarrow> 'a process" where
  "Setenv key val s = s\<lparr>environ := (environ s)(key \<mapsto> val)\<rparr>"

section \<open>The resolution, branch by branch\<close>

lemma mysqlFlavor_unset_single:
  assumes "Getenv s ''MYSQL_FLAVOR'' = ''''" and "mysqlFlavors s = [(k, v)]"
  shows "mysqlFlavor s =
    (Return v, logged (INFO (''Only one MySQL flavor declared, using '' @ k)) s)"
  using assms
  by (simp add: mysqlFlavor_def then_block_def then_stmt_def if_stmt_def reading_def
      len_map_def log_Info_def return_stmt_def logged_def)

lemma mysqlFlavor_unset_default:
  assumes "Getenv s ''MYSQL_FLAVOR'' = ''''" and "length (mysqlFlavors s) \<noteq> 1"
    and "map_of (mysqlFlavors s) ''GoogleMysql'' = Some v"
  shows "mysqlFlavor s =
    (Return v, logged (INFO ''MYSQL_FLAVOR is not set, using GoogleMysql flavor by default'') s)"
  using assms
  by (simp add: mysqlFlavor_def then_block_def then_stmt_def if_stmt_def reading_def
      len_map_def map_index_def log_Info_def return_stmt_def logged_def)

lemma mysqlFlavor_unset_fatal:
  assumes "Getenv s ''MYSQL_FLAVOR'' = ''''" and "length (mysqlFlavors s) \<noteq> 1"
    and "map_of (mysqlFlavors s) ''GoogleMysql'' = None"
  shows "mysqlFlavor s =
    (Fatal ''MYSQL_FLAVOR is not set, and no GoogleMysql flavor registered'',
     logged (FATAL ''MYSQL_FLAVOR is not set, and no GoogleMysql flavor registered'') s)"
  using assms
  by (simp add: mysqlFlavor_def then_block_def then_stmt_def if_stmt_def reading_def
      len_map_def map_index_def log_Fatal_def logged_def)

lemma mysqlFlavor_set_known:
  assumes "Getenv s ''MYSQL_FLAVOR'' = f" and "f \<noteq> ''''"
    and "map_of (mysqlFlavors s) f = Some v"
  shows "mysqlFlavor s = (Return v, logged (INFO (''Using MySQL flavor '' @ f)) s)"
  using assms
  by (simp add: mysqlFlavor_def then_block_def then_stmt_def if_stmt_def reading_def
      map_index_def log_Info_def return_stmt_def logged_def)

lemma mysqlFlavor_set_unknown:
  assumes "Getenv s ''MYSQL_FLAVOR'' = f" and "f \<noteq> ''''"
    and "map_of (mysqlFlavors s) f = None"
  shows "mysqlFlavor s =
    (Fatal (''MYSQL_FLAVOR is set to unknown value '' @ f),
     logged (FATAL (''MYSQL_FLAVOR is set to unknown value '' @ f)) s)"
  using assms
  by (simp add: mysqlFlavor_def then_block_def then_stmt_def if_stmt_def reading_def
      map_index_def log_Fatal_def logged_def)

section \<open>What every call does\<close>

lemma Getenv_unset: "environ s key = None \<Longrightarrow> Getenv s key = ''''"
  by (simp add: Getenv_def)

lemma Getenv_set: "environ s key = Some val \<Longrightarrow> Getenv s key = val"
  by (simp add: Getenv_def)

lemma length_one_entry:
  assumes "length m = 1"
  obtains k v where "m = [(k, v)]"
proof -
  from assms obtain x where "m = [x]"
    by (cases m) auto
  then show thesis
    using that [of "fst x" "snd x"] by simp
qed

text \<open>
  The result of a call is a function of the value of \<^verbatim>\<open>MYSQL_FLAVOR\<close> and of the map,
  it is never the panic, and every call appends one line to the log.
\<close>

lemma mysqlFlavor_shape:
  "\<exists>r e. (\<forall>m. r \<noteq> Panic m) \<and>
     (\<forall>t. Getenv t ''MYSQL_FLAVOR'' = Getenv s ''MYSQL_FLAVOR'' \<and> mysqlFlavors t = mysqlFlavors s
        \<longrightarrow> mysqlFlavor t = (r, logged e t))"
proof (cases "Getenv s ''MYSQL_FLAVOR'' = ''''")
  case unset: True
  show ?thesis
  proof (cases "length (mysqlFlavors s) = 1")
    case True
    then obtain k v where "mysqlFlavors s = [(k, v)]"
      by (rule length_one_entry)
    with unset have "mysqlFlavor t =
        (Return v, logged (INFO (''Only one MySQL flavor declared, using '' @ k)) t)"
      if "Getenv t ''MYSQL_FLAVOR'' = Getenv s ''MYSQL_FLAVOR''"
        and "mysqlFlavors t = mysqlFlavors s" for t
      using that by (simp add: mysqlFlavor_unset_single)
    then show ?thesis by blast
  next
    case several: False
    show ?thesis
    proof (cases "map_of (mysqlFlavors s) ''GoogleMysql''")
      case None
      with unset several have "mysqlFlavor t =
          (Fatal ''MYSQL_FLAVOR is not set, and no GoogleMysql flavor registered'',
           logged (FATAL ''MYSQL_FLAVOR is not set, and no GoogleMysql flavor registered'') t)"
        if "Getenv t ''MYSQL_FLAVOR'' = Getenv s ''MYSQL_FLAVOR''"
          and "mysqlFlavors t = mysqlFlavors s" for t
        using that by (simp add: mysqlFlavor_unset_fatal)
      then show ?thesis by blast
    next
      case (Some v)
      with unset several have "mysqlFlavor t =
          (Return v,
           logged (INFO ''MYSQL_FLAVOR is not set, using GoogleMysql flavor by default'') t)"
        if "Getenv t ''MYSQL_FLAVOR'' = Getenv s ''MYSQL_FLAVOR''"
          and "mysqlFlavors t = mysqlFlavors s" for t
        using that by (simp add: mysqlFlavor_unset_default)
      then show ?thesis by blast
    qed
  qed
next
  case set: False
  define f where "f = Getenv s ''MYSQL_FLAVOR''"
  with set have nonempty: "f \<noteq> ''''"
    by simp
  show ?thesis
  proof (cases "map_of (mysqlFlavors s) f")
    case None
    with nonempty have "mysqlFlavor t =
        (Fatal (''MYSQL_FLAVOR is set to unknown value '' @ f),
         logged (FATAL (''MYSQL_FLAVOR is set to unknown value '' @ f)) t)"
      if "Getenv t ''MYSQL_FLAVOR'' = Getenv s ''MYSQL_FLAVOR''"
        and "mysqlFlavors t = mysqlFlavors s" for t
      using that by (simp add: mysqlFlavor_set_unknown f_def)
    then show ?thesis by blast
  next
    case (Some v)
    with nonempty have "mysqlFlavor t = (Return v, logged (INFO (''Using MySQL flavor '' @ f)) t)"
      if "Getenv t ''MYSQL_FLAVOR'' = Getenv s ''MYSQL_FLAVOR''"
        and "mysqlFlavors t = mysqlFlavors s" for t
      using that by (simp add: mysqlFlavor_set_known f_def)
    then show ?thesis by blast
  qed
qed

lemma logged_frame [simp]:
  "mysqlFlavors (logged e s) = mysqlFlavors s"
  "environ (logged e s) = environ s"
  "Getenv (logged e s) key = Getenv s key"
  "glog (logged e s) = glog s @ [e]"
  by (simp_all add: logged_def Getenv_def)

text \<open>A value that is returned is stored in the map under some name.\<close>

lemma mysqlFlavor_returns_entry:
  assumes "fst (mysqlFlavor s) = Return v"
  shows "\<exists>k. map_of (mysqlFlavors s) k = Some v"
proof (cases "Getenv s ''MYSQL_FLAVOR'' = ''''")
  case unset: True
  show ?thesis
  proof (cases "length (mysqlFlavors s) = 1")
    case True
    then obtain k w where one: "mysqlFlavors s = [(k, w)]"
      by (rule length_one_entry)
    with unset assms have "w = v"
      by (simp add: mysqlFlavor_unset_single)
    with one have "map_of (mysqlFlavors s) k = Some v"
      by simp
    then show ?thesis ..
  next
    case several: False
    show ?thesis
    proof (cases "map_of (mysqlFlavors s) ''GoogleMysql''")
      case None
      with unset several assms show ?thesis
        by (simp add: mysqlFlavor_unset_fatal)
    next
      case (Some w)
      with unset several assms have "w = v"
        by (simp add: mysqlFlavor_unset_default)
      with Some show ?thesis by blast
    qed
  qed
next
  case set: False
  show ?thesis
  proof (cases "map_of (mysqlFlavors s) (Getenv s ''MYSQL_FLAVOR'')")
    case None
    with set assms show ?thesis
      by (simp add: mysqlFlavor_set_unknown)
  next
    case (Some w)
    with set assms have "w = v"
      by (simp add: mysqlFlavor_set_known)
    with Some show ?thesis by blast
  qed
qed

section \<open>The properties of the specification\<close>

subsection \<open>C1: two calls on an unchanged registry\<close>

text \<open>
  C1 says that two calls with the registry unchanged in between return the identical
  instance, and that the second call is a pure read of a cached value, not a second run
  of the policy. The source has no cache: every call reads \<^verbatim>\<open>MYSQL_FLAVOR\<close> and the map
  again. With both flavors registered and the variable unset, the second call returns the
  same instance as the first but writes its log line a second time; and when the
  variable is set to \<^verbatim>\<open>MariaDB\<close> between the two calls (the registry is the same), the
  second call returns the other instance.
\<close>

theorem mysqlFlavor_second_call_counterexample:
  "mysqlFlavor_twice (\<lambda>s. s) both_flavors =
     (Return (Flavor implA), Return (Flavor implA),
      both_flavors\<lparr>glog :=
        [INFO ''MYSQL_FLAVOR is not set, using GoogleMysql flavor by default'']\<rparr>,
      both_flavors\<lparr>glog :=
        [INFO ''MYSQL_FLAVOR is not set, using GoogleMysql flavor by default'',
         INFO ''MYSQL_FLAVOR is not set, using GoogleMysql flavor by default'']\<rparr>)
   \<and> fst (mysqlFlavor_twice (Setenv ''MYSQL_FLAVOR'' ''MariaDB'') both_flavors) =
       Return (Flavor implA)
   \<and> fst (snd (mysqlFlavor_twice (Setenv ''MYSQL_FLAVOR'' ''MariaDB'') both_flavors)) =
       Return (Flavor implB)
   \<and> mysqlFlavors (Setenv ''MYSQL_FLAVOR'' ''MariaDB'' (snd (mysqlFlavor both_flavors))) =
       mysqlFlavors (snd (mysqlFlavor both_flavors))"
  by (simp add: mysqlFlavor_twice_def both_flavors_def Setenv_def Let_def
      mysqlFlavor_def Getenv_def then_block_def then_stmt_def if_stmt_def reading_def
      len_map_def map_index_def log_Info_def return_stmt_def)

text \<open>
  C1 as amended: when the first call returns an instance, a second call on any state
  with the same registry and the same value of \<^verbatim>\<open>MYSQL_FLAVOR\<close> returns the identical
  instance. It does so by running the policy again: it appends to the log the line the
  first call appended.
\<close>

theorem mysqlFlavor_second_call:
  assumes "fst (mysqlFlavor s) = Return v"
    and "mysqlFlavors t = mysqlFlavors (snd (mysqlFlavor s))"
    and "Getenv t ''MYSQL_FLAVOR'' = Getenv (snd (mysqlFlavor s)) ''MYSQL_FLAVOR''"
  shows "fst (mysqlFlavor t) = Return v \<and>
    (\<exists>e. snd (mysqlFlavor s) = logged e s \<and> snd (mysqlFlavor t) = logged e t)"
proof -
  from mysqlFlavor_shape [of s] obtain r e
    where sh: "\<forall>t. Getenv t ''MYSQL_FLAVOR'' = Getenv s ''MYSQL_FLAVOR'' \<and>
                mysqlFlavors t = mysqlFlavors s \<longrightarrow> mysqlFlavor t = (r, logged e t)"
    by blast
  then have first: "mysqlFlavor s = (r, logged e s)"
    by blast
  from first assms(1) have r: "r = Return v"
    by simp
  from first assms(2,3) have "Getenv t ''MYSQL_FLAVOR'' = Getenv s ''MYSQL_FLAVOR''"
    and "mysqlFlavors t = mysqlFlavors s"
    by simp_all
  with sh have "mysqlFlavor t = (r, logged e t)"
    by blast
  with first r show ?thesis
    by auto
qed

theorem mysqlFlavor_second_call_witness:
  "fst (mysqlFlavor both_flavors) = Return (Flavor implA)
   \<and> fst (mysqlFlavor (snd (mysqlFlavor both_flavors))) = Return (Flavor implA)
   \<and> (\<exists>e. snd (mysqlFlavor both_flavors) = logged e both_flavors
          \<and> snd (mysqlFlavor (snd (mysqlFlavor both_flavors))) =
              logged e (snd (mysqlFlavor both_flavors)))"
proof -
  have first: "fst (mysqlFlavor both_flavors) = Return (Flavor implA)"
    by (simp add: both_flavors_def
        mysqlFlavor_def Getenv_def then_block_def then_stmt_def if_stmt_def reading_def
        len_map_def map_index_def log_Info_def return_stmt_def)
  from mysqlFlavor_second_call [OF first, of "snd (mysqlFlavor both_flavors)"] first
  show ?thesis
    by simp
qed

subsection \<open>C2: only MariaDB registered, no configuration\<close>

text \<open>
  C2 says that with the single entry \<^verbatim>\<open>MariaDB\<close> in the registry and the variable unset
  the resolution fails. The source tests \<^verbatim>\<open>len(mysqlFlavors) == 1\<close> before it looks for
  the default name, so the call returns the implementation registered as \<^verbatim>\<open>MariaDB\<close>
  and the process goes on.
\<close>

theorem mysqlFlavor_only_MariaDB_counterexample:
  "mysqlFlavor only_MariaDB =
     (Return (Flavor implB),
      only_MariaDB\<lparr>glog := [INFO ''Only one MySQL flavor declared, using MariaDB'']\<rparr>)"
  by (simp add: only_MariaDB_def
      mysqlFlavor_def Getenv_def then_block_def then_stmt_def if_stmt_def reading_def
      len_map_def log_Info_def return_stmt_def)

text \<open>
  C2 as amended: with the single entry \<^verbatim>\<open>MariaDB\<close> in the registry and
  \<^verbatim>\<open>MYSQL_FLAVOR\<close> unset, the resolution succeeds and returns the implementation
  registered under \<^verbatim>\<open>MariaDB\<close>, whatever that implementation, whatever the other
  variables of the environment and whatever the log so far.
\<close>

theorem mysqlFlavor_only_MariaDB:
  assumes "environ s ''MYSQL_FLAVOR'' = None"
    and "mysqlFlavors s = [(''MariaDB'', v)]"
  shows "mysqlFlavor s =
    (Return v, logged (INFO ''Only one MySQL flavor declared, using MariaDB'') s)"
proof -
  from assms(1) have "Getenv s ''MYSQL_FLAVOR'' = ''''"
    by (rule Getenv_unset)
  then have "mysqlFlavor s =
      (Return v, logged (INFO (''Only one MySQL flavor declared, using '' @ ''MariaDB'')) s)"
    using assms(2) by (rule mysqlFlavor_unset_single)
  then show ?thesis
    by simp
qed

theorem mysqlFlavor_only_MariaDB_witness:
  "environ \<lparr>environ = [''HOME'' \<mapsto> ''/root''], mysqlFlavors = [(''MariaDB'', Flavor implA)],
            glog = [INFO ''started'']\<rparr> ''MYSQL_FLAVOR'' = None
   \<and> mysqlFlavor \<lparr>environ = [''HOME'' \<mapsto> ''/root''],
                   mysqlFlavors = [(''MariaDB'', Flavor implA)],
                   glog = [INFO ''started'']\<rparr> =
       (Return (Flavor implA),
        \<lparr>environ = [''HOME'' \<mapsto> ''/root''],
         mysqlFlavors = [(''MariaDB'', Flavor implA)],
         glog = [INFO ''started'',
                 INFO ''Only one MySQL flavor declared, using MariaDB'']\<rparr>)"
  using mysqlFlavor_only_MariaDB
    [of "\<lparr>environ = [''HOME'' \<mapsto> ''/root''], mysqlFlavors = [(''MariaDB'', Flavor implA)],
          glog = [INFO ''started'']\<rparr>" "Flavor implA"]
  by (simp add: logged_def)

subsection \<open>C4: the configuration names a registered flavor\<close>

text \<open>
  C4: when \<^verbatim>\<open>MYSQL_FLAVOR\<close> is set to a non-empty name that is registered, the
  resolution returns the implementation registered under that name, whatever else the
  registry holds (no hypothesis speaks of the other entries or of the default name). The
  call logs the choice.
\<close>

theorem mysqlFlavor_explicit_registered:
  assumes "environ s ''MYSQL_FLAVOR'' = Some f" and "f \<noteq> ''''"
    and "map_of (mysqlFlavors s) f = Some v"
  shows "mysqlFlavor s = (Return v, logged (INFO (''Using MySQL flavor '' @ f)) s)"
  using assms by (simp add: mysqlFlavor_set_known Getenv_set)

theorem mysqlFlavor_explicit_registered_witness:
  "environ (Setenv ''MYSQL_FLAVOR'' ''MariaDB'' both_flavors) ''MYSQL_FLAVOR'' = Some ''MariaDB''
   \<and> ''MariaDB'' \<noteq> ''''
   \<and> map_of (mysqlFlavors (Setenv ''MYSQL_FLAVOR'' ''MariaDB'' both_flavors)) ''MariaDB'' =
       Some (Flavor implB)
   \<and> mysqlFlavor (Setenv ''MYSQL_FLAVOR'' ''MariaDB'' both_flavors) =
       (Return (Flavor implB),
        logged (INFO ''Using MySQL flavor MariaDB'')
          (Setenv ''MYSQL_FLAVOR'' ''MariaDB'' both_flavors))"
  using mysqlFlavor_explicit_registered
    [of "Setenv ''MYSQL_FLAVOR'' ''MariaDB'' both_flavors" "''MariaDB''" "Flavor implB"]
  by (simp add: Setenv_def both_flavors_def)

subsection \<open>C5: the configuration names a flavor that is not registered\<close>

text \<open>
  C5: when \<^verbatim>\<open>MYSQL_FLAVOR\<close> is set to a non-empty name that is not registered, the
  resolution ends the process with the message that the value is unknown. Neither
  implicit rule is applied, also when one flavor alone is registered: the result is not
  a returned flavor, and the one line the call logs is the fatal one.
\<close>

theorem mysqlFlavor_explicit_unknown:
  assumes "environ s ''MYSQL_FLAVOR'' = Some f" and "f \<noteq> ''''"
    and "map_of (mysqlFlavors s) f = None"
  shows "mysqlFlavor s =
    (Fatal (''MYSQL_FLAVOR is set to unknown value '' @ f),
     logged (FATAL (''MYSQL_FLAVOR is set to unknown value '' @ f)) s)"
  using assms by (simp add: mysqlFlavor_set_unknown Getenv_set)

theorem mysqlFlavor_explicit_unknown_witness:
  "environ (Setenv ''MYSQL_FLAVOR'' ''Unknown'' only_GoogleMysql) ''MYSQL_FLAVOR'' = Some ''Unknown''
   \<and> ''Unknown'' \<noteq> ''''
   \<and> map_of (mysqlFlavors (Setenv ''MYSQL_FLAVOR'' ''Unknown'' only_GoogleMysql)) ''Unknown'' = None
   \<and> len_map (mysqlFlavors (Setenv ''MYSQL_FLAVOR'' ''Unknown'' only_GoogleMysql)) = 1
   \<and> mysqlFlavor (Setenv ''MYSQL_FLAVOR'' ''Unknown'' only_GoogleMysql) =
       (Fatal ''MYSQL_FLAVOR is set to unknown value Unknown'',
        logged (FATAL ''MYSQL_FLAVOR is set to unknown value Unknown'')
          (Setenv ''MYSQL_FLAVOR'' ''Unknown'' only_GoogleMysql))"
  using mysqlFlavor_explicit_unknown
    [of "Setenv ''MYSQL_FLAVOR'' ''Unknown'' only_GoogleMysql" "''Unknown''"]
  by (simp add: Setenv_def only_GoogleMysql_def len_map_def)

subsection \<open>C6: one flavor registered, no configuration\<close>

text \<open>
  C6: when the registry holds exactly one entry and \<^verbatim>\<open>MYSQL_FLAVOR\<close> is unset or
  empty, the resolution returns the implementation of that entry, whatever its name,
  and logs that it was the only one.
\<close>

theorem mysqlFlavor_single:
  assumes "environ s ''MYSQL_FLAVOR'' = None \<or> environ s ''MYSQL_FLAVOR'' = Some ''''"
    and "mysqlFlavors s = [(k, v)]"
  shows "mysqlFlavor s =
    (Return v, logged (INFO (''Only one MySQL flavor declared, using '' @ k)) s)"
proof -
  from assms(1) have "Getenv s ''MYSQL_FLAVOR'' = ''''"
    by (auto simp: Getenv_def)
  then show ?thesis
    using assms(2) by (rule mysqlFlavor_unset_single)
qed

theorem mysqlFlavor_single_witness:
  "environ only_GoogleMysql ''MYSQL_FLAVOR'' = None
   \<and> mysqlFlavors only_GoogleMysql = [(''GoogleMysql'', Flavor implA)]
   \<and> mysqlFlavor only_GoogleMysql =
       (Return (Flavor implA),
        logged (INFO ''Only one MySQL flavor declared, using GoogleMysql'') only_GoogleMysql)"
  using mysqlFlavor_single [of only_GoogleMysql "''GoogleMysql''" "Flavor implA"]
  by (simp add: only_GoogleMysql_def)

subsection \<open>C7: several flavors, no default, no configuration\<close>

text \<open>
  C7: when two or more flavors are registered, none under the name \<^verbatim>\<open>GoogleMysql\<close>,
  and \<^verbatim>\<open>MYSQL_FLAVOR\<close> is unset, the resolution ends the process in \<^verbatim>\<open>log.Fatal\<close>: it
  returns no flavor at all.
\<close>

theorem mysqlFlavor_ambiguous:
  assumes "environ s ''MYSQL_FLAVOR'' = None"
    and "go_map (mysqlFlavors s)" and "2 \<le> len_map (mysqlFlavors s)"
    and "map_of (mysqlFlavors s) ''GoogleMysql'' = None"
  shows "mysqlFlavor s =
    (Fatal ''MYSQL_FLAVOR is not set, and no GoogleMysql flavor registered'',
     logged (FATAL ''MYSQL_FLAVOR is not set, and no GoogleMysql flavor registered'') s)"
proof -
  from assms(3) have "length (mysqlFlavors s) \<noteq> 1"
    by (simp add: len_map_def)
  with assms(1,4) show ?thesis
    by (simp add: mysqlFlavor_unset_fatal Getenv_unset)
qed

theorem mysqlFlavor_ambiguous_witness:
  "environ no_default ''MYSQL_FLAVOR'' = None
   \<and> go_map (mysqlFlavors no_default) \<and> 2 \<le> len_map (mysqlFlavors no_default)
   \<and> map_of (mysqlFlavors no_default) ''GoogleMysql'' = None
   \<and> mysqlFlavor no_default =
       (Fatal ''MYSQL_FLAVOR is not set, and no GoogleMysql flavor registered'',
        logged (FATAL ''MYSQL_FLAVOR is not set, and no GoogleMysql flavor registered'')
          no_default)"
  using mysqlFlavor_ambiguous [of no_default]
  by (simp add: no_default_def go_map_def len_map_def)

subsection \<open>C8: the default flavor among several, no configuration\<close>

text \<open>
  C8: when a flavor is registered under the name \<^verbatim>\<open>GoogleMysql\<close> together with at
  least one other flavor, and \<^verbatim>\<open>MYSQL_FLAVOR\<close> is unset, the resolution returns the
  implementation registered under \<^verbatim>\<open>GoogleMysql\<close>.
\<close>

theorem mysqlFlavor_default:
  assumes "environ s ''MYSQL_FLAVOR'' = None"
    and "go_map (mysqlFlavors s)" and "2 \<le> len_map (mysqlFlavors s)"
    and "map_of (mysqlFlavors s) ''GoogleMysql'' = Some v"
  shows "mysqlFlavor s =
    (Return v, logged (INFO ''MYSQL_FLAVOR is not set, using GoogleMysql flavor by default'') s)"
proof -
  from assms(3) have "length (mysqlFlavors s) \<noteq> 1"
    by (simp add: len_map_def)
  with assms(1,4) show ?thesis
    by (simp add: mysqlFlavor_unset_default Getenv_unset)
qed

theorem mysqlFlavor_default_witness:
  "environ both_flavors ''MYSQL_FLAVOR'' = None
   \<and> go_map (mysqlFlavors both_flavors) \<and> 2 \<le> len_map (mysqlFlavors both_flavors)
   \<and> map_of (mysqlFlavors both_flavors) ''GoogleMysql'' = Some (Flavor implA)
   \<and> mysqlFlavor both_flavors =
       (Return (Flavor implA),
        logged (INFO ''MYSQL_FLAVOR is not set, using GoogleMysql flavor by default'')
          both_flavors)"
  using mysqlFlavor_default [of both_flavors "Flavor implA"]
  by (simp add: both_flavors_def go_map_def len_map_def)

subsection \<open>C9: what a call can return\<close>

text \<open>
  C9 says that a call that returns gives an implementation present in the registry, that
  it never returns nil, and that the panic of the last line is never reached. A
  \<^verbatim>\<open>map[string]MysqlFlavor\<close> can hold nil, and the source returns what the map holds
  without looking at it: with nil registered as the only flavor and \<^verbatim>\<open>MYSQL_FLAVOR\<close>
  unset, the call returns nil.
\<close>

theorem mysqlFlavor_returns_nil_counterexample:
  "mysqlFlavor \<lparr>environ = Map.empty, mysqlFlavors = [(''MariaDB'', NilFlavor :: impl iface)],
                glog = []\<rparr> =
     (Return NilFlavor,
      \<lparr>environ = Map.empty, mysqlFlavors = [(''MariaDB'', NilFlavor)],
       glog = [INFO ''Only one MySQL flavor declared, using MariaDB'']\<rparr>)"
  by (simp add: mysqlFlavor_def Getenv_def then_block_def then_stmt_def if_stmt_def
      reading_def len_map_def log_Info_def return_stmt_def)

text \<open>
  C9 as amended: a call never ends in the panic of the last line, and a value it returns
  is the value stored in the registry under some name. So it never returns a value that
  is absent from the registry, nor the nil of a failed lookup: it returns nil only when
  nil itself is stored in the registry.
\<close>

theorem mysqlFlavor_returns_registered:
  "fst (mysqlFlavor s) \<noteq> Panic m \<and>
   (fst (mysqlFlavor s) = Return v \<longrightarrow> (\<exists>k. map_of (mysqlFlavors s) k = Some v))"
proof -
  from mysqlFlavor_shape [of s] obtain r e
    where np: "\<forall>m. r \<noteq> Panic m"
      and sh: "\<forall>t. Getenv t ''MYSQL_FLAVOR'' = Getenv s ''MYSQL_FLAVOR'' \<and>
                mysqlFlavors t = mysqlFlavors s \<longrightarrow> mysqlFlavor t = (r, logged e t)"
    by blast
  from sh have "mysqlFlavor s = (r, logged e s)"
    by blast
  with np have no_panic: "fst (mysqlFlavor s) \<noteq> Panic m"
    by simp
  have registered: "\<exists>k. map_of (mysqlFlavors s) k = Some v"
    if "fst (mysqlFlavor s) = Return v"
    using that by (rule mysqlFlavor_returns_entry)
  from no_panic registered show ?thesis
    by blast
qed

theorem mysqlFlavor_returns_registered_witness:
  "fst (mysqlFlavor (Setenv ''MYSQL_FLAVOR'' ''MySQL56'' no_default)) \<noteq> Panic ''''
   \<and> fst (mysqlFlavor (Setenv ''MYSQL_FLAVOR'' ''MySQL56'' no_default)) = Return (Flavor implA)
   \<and> (\<exists>k. map_of (mysqlFlavors (Setenv ''MYSQL_FLAVOR'' ''MySQL56'' no_default)) k =
          Some (Flavor implA))"
proof -
  have ret: "fst (mysqlFlavor (Setenv ''MYSQL_FLAVOR'' ''MySQL56'' no_default)) =
      Return (Flavor implA)"
    by (simp add: Setenv_def no_default_def Let_def
        mysqlFlavor_def Getenv_def then_block_def then_stmt_def if_stmt_def reading_def
        len_map_def map_index_def log_Info_def return_stmt_def)
  from mysqlFlavor_returns_registered
    [of "Setenv ''MYSQL_FLAVOR'' ''MySQL56'' no_default" "''''" "Flavor implA"] ret
  show ?thesis
    by simp
qed

subsection \<open>C10: the registry after a call\<close>

text \<open>
  C10: a call leaves the registry as it found it, whatever the registry and whatever
  the environment, and however the call ends.
\<close>

theorem mysqlFlavor_registry_unchanged:
  "mysqlFlavors (snd (mysqlFlavor s)) = mysqlFlavors s"
proof -
  from mysqlFlavor_shape [of s] obtain r e
    where "\<forall>t. Getenv t ''MYSQL_FLAVOR'' = Getenv s ''MYSQL_FLAVOR'' \<and>
                mysqlFlavors t = mysqlFlavors s \<longrightarrow> mysqlFlavor t = (r, logged e t)"
    by blast
  then have "mysqlFlavor s = (r, logged e s)"
    by blast
  then show ?thesis
    by simp
qed

end
